theory Spec2Isabelle
  imports Complex_Main
begin

section \<open>Constraints as the notebooks build them\<close>

text \<open>
  The code cells of \<^verbatim>\<open>documentation_builder/milp.ipynb\<close> build linear programs out of
  two kinds of objects: a \<^verbatim>\<open>Reaction\<close> is a variable (a column) and a \<^verbatim>\<open>Metabolite\<close> is a
  constraint (a row). A cell sets the row's \<^verbatim>\<open>_constraint_sense\<close> to \<^verbatim>\<open>"L"\<close> or \<^verbatim>\<open>"G"\<close> and
  its \<^verbatim>\<open>_bound\<close>, and \<^verbatim>\<open>add_metabolites({row: coefficient})\<close> puts the variable into the row.
  The library that solves the programs is not among the files, so the meaning of a row is
  taken from the notebook itself, which states every row as a formula next to the code:
  the budget row with \<^verbatim>\<open>"L"\<close> is \<open>\<dots> \<le> budget\<close>, the order row with no sense set is
  \<open>\<dots> = 15.05\<close>, and the indicator rows with no bound set are commented
  \<^verbatim>\<open>v - 1000 b <= 0\<close> for \<^verbatim>\<open>"L"\<close> and \<^verbatim>\<open>v + 1000 b >= 0\<close> for \<^verbatim>\<open>"G"\<close>. A row left alone
  is therefore an equality, and a bound left alone is zero.
\<close>

datatype constraint_sense = E | L | G

record metabolite =
  met_id :: string
  sense :: constraint_sense
  bound :: real

definition holds :: "metabolite \<Rightarrow> real \<Rightarrow> bool" where
  "holds m lhs = (case sense m of E \<Rightarrow> lhs = bound m | L \<Rightarrow> lhs \<le> bound m | G \<Rightarrow> bound m \<le> lhs)"


section \<open>Ice cream\<close>

text \<open>
  \<^verbatim>\<open>
  cone_selling_price = 7.
  cone_production_cost = 3.
  popsicle_selling_price = 2.
  popsicle_production_cost = 1.
  starting_budget = 100.
  \<close>
\<close>

definition cone_selling_price :: real where "cone_selling_price = 7"
definition cone_production_cost :: real where "cone_production_cost = 3"
definition popsicle_selling_price :: real where "popsicle_selling_price = 2"
definition popsicle_production_cost :: real where "popsicle_production_cost = 1"
definition starting_budget :: real where "starting_budget = 100"

text \<open>
  \<^verbatim>\<open>
  budget = Metabolite("budget")
  budget._constraint_sense = "L"
  budget._bound = starting_budget
  cone.add_metabolites({budget: cone_production_cost})
  popsicle.add_metabolites({budget: popsicle_production_cost})
  \<close>
\<close>

definition budget :: metabolite where
  "budget = \<lparr>met_id = ''budget'', sense = L, bound = starting_budget\<rparr>"

definition budget_row :: "real \<Rightarrow> real \<Rightarrow> real" where
  "budget_row cone popsicle = cone * cone_production_cost + popsicle * popsicle_production_cost"

text \<open>
  \<^verbatim>\<open>
  cone.objective_coefficient = cone_selling_price - cone_production_cost
  popsicle.objective_coefficient = popsicle_selling_price - popsicle_production_cost
  \<close>
\<close>

definition cone_objective_coefficient :: real where
  "cone_objective_coefficient = cone_selling_price - cone_production_cost"

definition popsicle_objective_coefficient :: real where
  "popsicle_objective_coefficient = popsicle_selling_price - popsicle_production_cost"

definition profit :: "real \<Rightarrow> real \<Rightarrow> real" where
  "profit cone popsicle =
     cone * cone_objective_coefficient + popsicle * popsicle_objective_coefficient"

text \<open>
  A plan is feasible when the budget row holds and both amounts are nonnegative (no cell
  sets a lower bound, and the recorded optimum has zero popsicles: the amounts are bounded
  below by zero).
\<close>

definition ice_cream_feasible :: "real \<Rightarrow> real \<Rightarrow> bool" where
  "ice_cream_feasible cone popsicle \<longleftrightarrow>
     0 \<le> cone \<and> 0 \<le> popsicle \<and> holds budget (budget_row cone popsicle)"

text \<open>
  The output recorded for the linear program is
  \<^verbatim>\<open>{'cone': 33.333333333333336, 'popsicle': 0.0}\<close>, and for the integer program
  (\<^verbatim>\<open>variable_kind = "integer"\<close> on both variables) \<^verbatim>\<open>{'cone': 33.0, 'popsicle': 1.0}\<close>.
\<close>

definition lp_recorded_cone :: real where
  "lp_recorded_cone = 33333333333333336 / 10 ^ 15"

definition lp_recorded_popsicle :: real where
  "lp_recorded_popsicle = 0"

definition milp_recorded_cone :: int where "milp_recorded_cone = 33"
definition milp_recorded_popsicle :: int where "milp_recorded_popsicle = 1"


section \<open>Restaurant order\<close>

text \<open>
  The markdown cell asks for a vector \<open>v\<close> of nonnegative integers with
  \<open>(2.15 2.75 3.35 3.55 4.20 5.80) \<cdot> v = 15.05\<close>, and the code cell builds it:
  \<^verbatim>\<open>
  total_cost = Metabolite("constraint")
  total_cost._bound = 15.05

  costs = {"mixed_fruit": 2.15, "french_fries": 2.75, "side_salad": 3.35,
           "hot_wings": 3.55, "mozarella_sticks": 4.20, "sampler_plate": 5.80}

  for item, cost in costs.items():
      r = Reaction(item)
      r.add_metabolites({total_cost: cost})
      r.variable_kind = "integer"
      m.add_reaction(r)
  \<close>
  The decimal literals are read as the fractions they denote (215/100 and so on), not as
  the binary floating point numbers next to them.
\<close>

definition total_cost :: metabolite where
  "total_cost = \<lparr>met_id = ''constraint'', sense = E, bound = 1505 / 100\<rparr>"

definition costs :: "(string \<times> real) list" where
  "costs = [(''mixed_fruit'', 215 / 100), (''french_fries'', 275 / 100),
            (''side_salad'', 335 / 100), (''hot_wings'', 355 / 100),
            (''mozarella_sticks'', 420 / 100), (''sampler_plate'', 580 / 100)]"

text \<open>An order gives every item an integer amount; the loop puts each item into the row.\<close>

definition constraint_row :: "(string \<Rightarrow> int) \<Rightarrow> real" where
  "constraint_row v = (\<Sum>(item, cost)\<leftarrow>costs. cost * of_int (v item))"

definition order_feasible :: "(string \<Rightarrow> int) \<Rightarrow> bool" where
  "order_feasible v \<longleftrightarrow>
     list_all (\<lambda>item. 0 \<le> v item) (map fst costs) \<and> holds total_cost (constraint_row v)"

text \<open>
  The two recorded outputs, \<^verbatim>\<open>m.optimize(objective_sense="minimize").x_dict\<close> and
  \<^verbatim>\<open>m.optimize(objective_sense="maximize").x_dict\<close>, in the order they are printed; the
  amounts are printed as \<^verbatim>\<open>2.0\<close>, \<^verbatim>\<open>1.0\<close>, \<^verbatim>\<open>7.0\<close> and \<^verbatim>\<open>0.0\<close>.
\<close>

definition recorded_minimize :: "(string \<times> int) list" where
  "recorded_minimize = [(''french_fries'', 0), (''hot_wings'', 2), (''mixed_fruit'', 1),
     (''mozarella_sticks'', 0), (''sampler_plate'', 1), (''side_salad'', 0)]"

definition recorded_maximize :: "(string \<times> int) list" where
  "recorded_maximize = [(''french_fries'', 0), (''hot_wings'', 0), (''mixed_fruit'', 7),
     (''mozarella_sticks'', 0), (''sampler_plate'', 0), (''side_salad'', 0)]"

definition x_dict :: "(string \<times> int) list \<Rightarrow> string \<Rightarrow> int" where
  "x_dict xs item = (case map_of xs item of Some n \<Rightarrow> n | None \<Rightarrow> 0)"

text \<open>Two orders are the same when they agree on every item of the menu.\<close>

definition same_order :: "(string \<Rightarrow> int) \<Rightarrow> (string \<Rightarrow> int) \<Rightarrow> bool" where
  "same_order v w \<longleftrightarrow> list_all (\<lambda>item. v item = w item) (map fst costs)"

text \<open>
  The search behind the uniqueness proof: \<open>orders cs t\<close> lists every vector of amounts,
  one per price in \<open>cs\<close>, whose total is \<open>t\<close>. Prices and total are in cents.
\<close>

fun dot :: "nat list \<Rightarrow> nat list \<Rightarrow> nat" where
  "dot (c # cs) (v # vs) = c * v + dot cs vs"
| "dot _ _ = 0"

fun orders :: "nat list \<Rightarrow> nat \<Rightarrow> nat list list" where
  "orders [] t = (if t = 0 then [[]] else [])"
| "orders (c # cs) t =
     concat (map (\<lambda>k. map ((#) k) (orders cs (t - k * c))) [0..<Suc (t div c)])"

definition cents :: "nat list" where
  "cents = [215, 275, 335, 355, 420, 580]"


section \<open>Boolean indicators\<close>

text \<open>
  \<^verbatim>\<open>
  pgi_indicator.lower_bound = 0
  pgi_indicator.upper_bound = 1
  pgi_indicator.variable_kind = "integer"
  # create constraint for v - 1000 b <= 0
  pgi_plus = Metabolite("PGI_plus")
  pgi_plus._constraint_sense = "L"
  # create constraint for v + 1000 b >= 0
  pgi_minus = Metabolite("PGI_minus")
  pgi_minus._constraint_sense = "G"
  pgi_indicator.add_metabolites({pgi_plus: -1000, pgi_minus: 1000})
  pgi.add_metabolites({pgi_plus: 1, pgi_minus: 1})
  \<close>
  The cell repeats the same lines for \<^verbatim>\<open>G6PDH2r\<close> with \<^verbatim>\<open>ZWF_plus\<close> and \<^verbatim>\<open>ZWF_minus\<close>.
\<close>

definition pgi_plus :: metabolite where
  "pgi_plus = \<lparr>met_id = ''PGI_plus'', sense = L, bound = 0\<rparr>"

definition pgi_minus :: metabolite where
  "pgi_minus = \<lparr>met_id = ''PGI_minus'', sense = G, bound = 0\<rparr>"

definition zwf_plus :: metabolite where
  "zwf_plus = \<lparr>met_id = ''ZWF_plus'', sense = L, bound = 0\<rparr>"

definition zwf_minus :: metabolite where
  "zwf_minus = \<lparr>met_id = ''ZWF_minus'', sense = G, bound = 0\<rparr>"

text \<open>The two rows, with the flux \<open>v\<close> of the reaction and the indicator \<open>b\<close>.\<close>

definition plus_row :: "real \<Rightarrow> real \<Rightarrow> real" where
  "plus_row v b = 1 * v + (- 1000) * b"

definition minus_row :: "real \<Rightarrow> real \<Rightarrow> real" where
  "minus_row v b = 1 * v + 1000 * b"

text \<open>The constraint the markdown cell starts from: \<open>-1000 b \<le> v \<le> 1000 b\<close>.\<close>

definition indicator_bounds :: "real \<Rightarrow> real \<Rightarrow> bool" where
  "indicator_bounds v b \<longleftrightarrow> - 1000 * b \<le> v \<and> v \<le> 1000 * b"


section \<open>Searching text\<close>

text \<open>Python's \<^verbatim>\<open>s.startswith(p)\<close> and \<^verbatim>\<open>sub in s\<close> on strings.\<close>

fun startswith :: "string \<Rightarrow> string \<Rightarrow> bool" where
  "startswith s [] = True"
| "startswith [] (p # ps) = False"
| "startswith (c # cs) (p # ps) = (c = p \<and> startswith cs ps)"

fun contains :: "string \<Rightarrow> string \<Rightarrow> bool" where
  "contains [] sub = (sub = [])"
| "contains (c # cs) sub = (startswith (c # cs) sub \<or> contains cs sub)"


section \<open>The CI configuration\<close>

text \<open>
  \<^verbatim>\<open>.travis.yml\<close>, key by key. A YAML comment (from \<^verbatim>\<open> #\<close> to the end of the line) is not
  part of a value. \<^verbatim>\<open>script\<close> is a single command in the file; it is kept as a list of one
  command, like the other phases.
\<close>

record travis =
  language :: string
  sudo :: bool
  cache_directories :: "string list"
  python :: "string list"
  apt_packages :: "string list"
  env :: "string list"
  before_install :: "string list"
  install :: "string list"
  script :: "string list"
  after_success :: "string list"

definition travis_yml :: travis where
  "travis_yml = \<lparr>
     language = ''python'',
     sudo = False,
     cache_directories = [''$HOME/.cache/pip''],
     python = [''2.7'', ''3.4'', ''3.5''],
     apt_packages = [''gfortran'', ''libatlas-dev'', ''libatlas-base-dev'', ''liblapack-dev'',
       ''libgmp-dev'', ''libglpk-dev'', ''libmpfr-dev''],
     env = [''PIP_CACHE_DIR=$HOME/.cache/pip''],
     before_install = [
       ''pip install pip --upgrade'',
       ''pip install numpy scipy python-libsbml -v'',
       ''pip install cython coveralls jsonschema six'',
       ''if [[ $TRAVIS_PYTHON_VERSION == 2* ]]; then pip install lxml glpk; fi'',
       ''wget https://opencobra.github.io/pypi_cobrapy_travis/esolver.gz'',
       ''gzip -d esolver.gz; chmod +x esolver; export PATH=$PATH:$PWD''],
     install = [''python setup.py develop''],
     script = [''coverage run --source=cobra setup.py test''],
     after_success = [''coveralls'']\<rparr>"


section \<open>The code cells and their captured output\<close>

text \<open>
  A notebook file is a list of cells. A code cell has an execution count, its source lines
  and the outputs captured when it ran; an output is a stream (its name and its text), an
  execute result or display data (a bundle of representations by MIME type), or an error
  (exception name, value and traceback). The markdown cells of a document are kept apart, as
  the list of their source lines, in the order of the file. Lines are kept without their
  newline. Of the \<^verbatim>\<open>image/png\<close> payload only the first 24 characters are kept.
\<close>

datatype cell_output =
    Stream string "string list"
  | Execute_result "(string \<times> string list) list"
  | Display_data "(string \<times> string list) list"
  | Error string string "string list"

record code_cell =
  execution_count :: nat
  source :: "string list"
  outputs :: "cell_output list"

subsection \<open>\<^verbatim>\<open>documentation_builder/milp.ipynb\<close>\<close>

definition milp_cell_1 :: code_cell where
  \<open>milp_cell_1 = \<lparr>execution_count = 1,
     source = [''cone_selling_price = 7.'',
       ''cone_production_cost = 3.'',
       ''popsicle_selling_price = 2.'',
       ''popsicle_production_cost = 1.'',
       ''starting_budget = 100.''],
     outputs = []\<rparr>\<close>

definition milp_cell_2 :: code_cell where
  \<open>milp_cell_2 = \<lparr>execution_count = 2,
     source = [''from cobra import Model, Metabolite, Reaction'',
       '''',
       ''cone = Reaction("cone")'',
       ''popsicle = Reaction("popsicle")'',
       '''',
       ''# constrainted to a budget'',
       ''budget = Metabolite("budget")'',
       ''budget._constraint_sense = "L"'',
       ''budget._bound = starting_budget'',
       ''cone.add_metabolites({budget: cone_production_cost})'',
       ''popsicle.add_metabolites({budget: popsicle_production_cost})'',
       '''',
       ''# objective coefficient is the profit to be made from each unit'',
       ''cone.objective_coefficient = cone_selling_price - cone_production_cost'',
       ''popsicle.objective_coefficient = popsicle_selling_price - '' @ [CHR 0x5C],
       ''                                 popsicle_production_cost'',
       '''',
       ''m = Model("lerman_ice_cream_co")'',
       ''m.add_reactions((cone, popsicle))'',
       '''',
       ''m.optimize().x_dict''],
     outputs = [Execute_result [(''text/plain'', [''{'cone': 33.333333333333336, 'popsicle': 0.0}''])]]\<rparr>\<close>

definition milp_cell_3 :: code_cell where
  \<open>milp_cell_3 = \<lparr>execution_count = 3,
     source = [''cone.variable_kind = "integer"'',
       ''popsicle.variable_kind = "integer"'',
       ''m.optimize().x_dict''],
     outputs = [Execute_result [(''text/plain'', [''{'cone': 33.0, 'popsicle': 1.0}''])]]\<rparr>\<close>

definition milp_cell_4 :: code_cell where
  \<open>milp_cell_4 = \<lparr>execution_count = 4,
     source = [''from IPython.display import Image'',
       ''Image(url=r"http://imgs.xkcd.com/comics/np_complete.png")''],
     outputs = [Execute_result [(''text/html'', [''<img src="http://imgs.xkcd.com/comics/np_complete.png"/>'']),
         (''text/plain'', [''<IPython.core.display.Image object>''])]]\<rparr>\<close>

definition milp_cell_5 :: code_cell where
  \<open>milp_cell_5 = \<lparr>execution_count = 5,
     source = [''total_cost = Metabolite("constraint")'',
       ''total_cost._bound = 15.05'',
       '''',
       ''costs = {"mixed_fruit": 2.15, "french_fries": 2.75, "side_salad": 3.35,'',
       ''         "hot_wings": 3.55, "mozarella_sticks": 4.20, "sampler_plate": 5.80}'',
       '''',
       ''m = Model("appetizers")'',
       '''',
       ''for item, cost in costs.items():'',
       ''    r = Reaction(item)'',
       ''    r.add_metabolites({total_cost: cost})'',
       ''    r.variable_kind = "integer"'',
       ''    m.add_reaction(r)'',
       '''',
       ''# To add to the problem, suppose we don't want to eat all mixed fruit.'',
       ''m.reactions.mixed_fruit.objective_coefficient = 1'',
       ''    '',
       ''m.optimize(objective_sense="minimize").x_dict''],
     outputs = [Execute_result [(''text/plain'', [''{'french_fries': 0.0,'',
          '' 'hot_wings': 2.0,'',
          '' 'mixed_fruit': 1.0,'',
          '' 'mozarella_sticks': 0.0,'',
          '' 'sampler_plate': 1.0,'',
          '' 'side_salad': 0.0}''])]]\<rparr>\<close>

definition milp_cell_6 :: code_cell where
  \<open>milp_cell_6 = \<lparr>execution_count = 6,
     source = [''m.optimize(objective_sense="maximize").x_dict''],
     outputs = [Execute_result [(''text/plain'', [''{'french_fries': 0.0,'',
          '' 'hot_wings': 0.0,'',
          '' 'mixed_fruit': 7.0,'',
          '' 'mozarella_sticks': 0.0,'',
          '' 'sampler_plate': 0.0,'',
          '' 'side_salad': 0.0}''])]]\<rparr>\<close>

definition milp_cell_7 :: code_cell where
  \<open>milp_cell_7 = \<lparr>execution_count = 7,
     source = [''import cobra.test'',
       ''model = cobra.test.create_test_model("textbook")'',
       '''',
       ''# an indicator for pgi'',
       ''pgi = model.reactions.get_by_id("PGI")'',
       ''# make a boolean variable'',
       ''pgi_indicator = Reaction("indicator_PGI")'',
       ''pgi_indicator.lower_bound = 0'',
       ''pgi_indicator.upper_bound = 1'',
       ''pgi_indicator.variable_kind = "integer"'',
       ''# create constraint for v - 1000 b <= 0'',
       ''pgi_plus = Metabolite("PGI_plus")'',
       ''pgi_plus._constraint_sense = "L"'',
       ''# create constraint for v + 1000 b >= 0'',
       ''pgi_minus = Metabolite("PGI_minus")'',
       ''pgi_minus._constraint_sense = "G"'',
       '''',
       ''pgi_indicator.add_metabolites({pgi_plus: -1000, pgi_minus: 1000})'',
       ''pgi.add_metabolites({pgi_plus: 1, pgi_minus: 1})'',
       ''model.add_reaction(pgi_indicator)'',
       '''',
       '''',
       ''# an indicator for zwf'',
       ''zwf = model.reactions.get_by_id("G6PDH2r")'',
       ''zwf_indicator = Reaction("indicator_ZWF")'',
       ''zwf_indicator.lower_bound = 0'',
       ''zwf_indicator.upper_bound = 1'',
       ''zwf_indicator.variable_kind = "integer"'',
       ''# create constraint for v - 1000 b <= 0'',
       ''zwf_plus = Metabolite("ZWF_plus")'',
       ''zwf_plus._constraint_sense = "L"'',
       ''# create constraint for v + 1000 b >= 0'',
       ''zwf_minus = Metabolite("ZWF_minus")'',
       ''zwf_minus._constraint_sense = "G"'',
       '''',
       ''zwf_indicator.add_metabolites({zwf_plus: -1000, zwf_minus: 1000})'',
       ''zwf.add_metabolites({zwf_plus: 1, zwf_minus: 1})'',
       '''',
       ''# add the indicator reactions to the model'',
       ''model.add_reaction(zwf_indicator)'',
       ''''],
     outputs = []\<rparr>\<close>

definition milp_cell_8 :: code_cell where
  \<open>milp_cell_8 = \<lparr>execution_count = 8,
     source = [''solution = model.optimize()'',
       ''print("PGI indicator = %d" % solution.x_dict["indicator_PGI"])'',
       ''print("ZWF indicator = %d" % solution.x_dict["indicator_ZWF"])'',
       ''print("PGI flux = %.2f" % solution.x_dict["PGI"])'',
       ''print("ZWF flux = %.2f" % solution.x_dict["G6PDH2r"])''],
     outputs = [Stream ''stdout'' [''PGI indicator = 1'',
          ''ZWF indicator = 1'',
          ''PGI flux = 4.86'',
          ''ZWF flux = 4.96'']]\<rparr>\<close>

definition milp_cell_9 :: code_cell where
  \<open>milp_cell_9 = \<lparr>execution_count = 9,
     source = [''or_constraint = Metabolite("or")'',
       ''or_constraint._bound = 1'',
       ''zwf_indicator.add_metabolites({or_constraint: 1})'',
       ''pgi_indicator.add_metabolites({or_constraint: 1})'',
       '''',
       ''solution = model.optimize()'',
       ''print("PGI indicator = %d" % solution.x_dict["indicator_PGI"])'',
       ''print("ZWF indicator = %d" % solution.x_dict["indicator_ZWF"])'',
       ''print("PGI flux = %.2f" % solution.x_dict["PGI"])'',
       ''print("ZWF flux = %.2f" % solution.x_dict["G6PDH2r"])''],
     outputs = [Stream ''stdout'' [''PGI indicator = 1'',
          ''ZWF indicator = 0'',
          ''PGI flux = 9.82'',
          ''ZWF flux = 0.00'']]\<rparr>\<close>

definition milp :: "code_cell list" where
  "milp = [milp_cell_1, milp_cell_2, milp_cell_3, milp_cell_4, milp_cell_5, milp_cell_6, milp_cell_7, milp_cell_8, milp_cell_9]"

subsection \<open>\<^verbatim>\<open>documentation_builder/loopless.ipynb\<close>, first document: loopless FBA\<close>

definition loopless_cell_1 :: code_cell where
  \<open>loopless_cell_1 = \<lparr>execution_count = 1,
     source = [''from matplotlib.pylab import *'',
       ''%matplotlib inline'',
       '''',
       ''import cobra.test'',
       ''from cobra import Reaction, Metabolite, Model'',
       ''from cobra.flux_analysis.loopless import construct_loopless_model'',
       ''from cobra.solvers import get_solver_name''],
     outputs = []\<rparr>\<close>

definition loopless_cell_2 :: code_cell where
  \<open>loopless_cell_2 = \<lparr>execution_count = 2,
     source = [''figure(figsize=(10.5, 4.5), frameon=False)'',
       ''gca().axis("off")'',
       ''xlim(0.5, 3.5)'',
       ''ylim(0.7, 2.2)'',
       ''arrow_params = {"head_length": 0.08, "head_width": 0.1, "ec": "k", "fc": "k"}'',
       ''text_params = {"fontsize": 25, "horizontalalignment": "center", "verticalalignment": "center"}'',
       ''arrow(0.5, 1, 0.85, 0, **arrow_params)  # EX_A'',
       ''arrow(1.5, 1, 0.425, 0.736, **arrow_params)  # v1'',
       ''arrow(2.04, 1.82, 0.42, -0.72, **arrow_params)  # v2'',
       ''arrow(2.4, 1, -0.75, 0, **arrow_params)  # v3'',
       ''arrow(2.6, 1, 0.75, 0, **arrow_params)'',
       ''# reaction labels'',
       ''text(0.9, 1.15, "EX_A", **text_params)'',
       ''text(1.6, 1.5, r"v$_1$", **text_params)'',
       ''text(2.4, 1.5, r"v$_2$", **text_params)'',
       ''text(2, 0.85, r"v$_3$", **text_params)'',
       ''text(2.9, 1.15, "DM_C", **text_params)'',
       ''# metabolite labels'',
       ''scatter(1.5, 1, s=250, color='#c994c7')'',
       ''text(1.5, 0.9, "A", **text_params)'',
       ''scatter(2, 1.84, s=250, color='#c994c7')'',
       ''text(2, 1.95, "B", **text_params)'',
       ''scatter(2.5, 1, s=250, color='#c994c7')'',
       ''text(2.5, 0.9, "C", **text_params);''],
     outputs = [Display_data [(''image/png'', [''iVBORw0KGgoAAAANSUhEUgAA'']),
         (''text/plain'', [''<matplotlib.figure.Figure at 0x7f003ad8eb50>''])]]\<rparr>\<close>

definition loopless_cell_3 :: code_cell where
  \<open>loopless_cell_3 = \<lparr>execution_count = 3,
     source = [''test_model = Model()'',
       ''test_model.add_metabolites(Metabolite("A"))'',
       ''test_model.add_metabolites(Metabolite("B"))'',
       ''test_model.add_metabolites(Metabolite("C"))'',
       ''EX_A = Reaction("EX_A")'',
       ''EX_A.add_metabolites({test_model.metabolites.A: 1})'',
       ''DM_C = Reaction("DM_C")'',
       ''DM_C.add_metabolites({test_model.metabolites.C: -1})'',
       ''v1 = Reaction("v1")'',
       ''v1.add_metabolites({test_model.metabolites.A: -1, test_model.metabolites.B: 1})'',
       ''v2 = Reaction("v2")'',
       ''v2.add_metabolites({test_model.metabolites.B: -1, test_model.metabolites.C: 1})'',
       ''v3 = Reaction("v3")'',
       ''v3.add_metabolites({test_model.metabolites.C: -1, test_model.metabolites.A: 1})'',
       ''DM_C.objective_coefficient = 1'',
       ''test_model.add_reactions([EX_A, DM_C, v1, v2, v3])''],
     outputs = []\<rparr>\<close>

definition loopless_cell_4 :: code_cell where
  \<open>loopless_cell_4 = \<lparr>execution_count = 4,
     source = [''construct_loopless_model(test_model).optimize()''],
     outputs = [Execute_result [(''text/plain'', [''<Solution 1000.00 at 0x7f003ad82850>''])]]\<rparr>\<close>

definition loopless_cell_5 :: code_cell where
  \<open>loopless_cell_5 = \<lparr>execution_count = 5,
     source = [''v3.lower_bound = 1'',
       ''construct_loopless_model(test_model).optimize()''],
     outputs = [Execute_result [(''text/plain'', [''<Solution 'infeasible' at 0x7f003ad82f10>''])]]\<rparr>\<close>

definition loopless_cell_6 :: code_cell where
  \<open>loopless_cell_6 = \<lparr>execution_count = 6,
     source = [''salmonella = cobra.test.create_test_model("salmonella")'',
       ''construct_loopless_model(salmonella).optimize(solver=get_solver_name(mip=True))''],
     outputs = [Execute_result [(''text/plain'', [''<Solution 0.38 at 0x7f003a496190>''])]]\<rparr>\<close>

definition loopless_cell_7 :: code_cell where
  \<open>loopless_cell_7 = \<lparr>execution_count = 7,
     source = [''ecoli = cobra.test.create_test_model("ecoli")'',
       ''construct_loopless_model(ecoli).optimize(solver=get_solver_name(mip=True))''],
     outputs = [Execute_result [(''text/plain'', [''<Solution 0.98 at 0x7f003ae06b50>''])]]\<rparr>\<close>

definition loopless :: "code_cell list" where
  "loopless = [loopless_cell_1, loopless_cell_2, loopless_cell_3, loopless_cell_4, loopless_cell_5, loopless_cell_6, loopless_cell_7]"

subsection \<open>\<^verbatim>\<open>documentation_builder/loopless.ipynb\<close>, second document: the FAQ\<close>

definition faq_cell_1 :: code_cell where
  \<open>faq_cell_1 = \<lparr>execution_count = 1,
     source = [''from __future__ import print_function'',
       ''import cobra.test'',
       ''model = cobra.test.create_test_model()'',
       '''',
       ''for metabolite in model.metabolites:'',
       ''    metabolite.id = "test_" + metabolite.id'',
       '''',
       ''try:'',
       ''    model.metabolites.get_by_id(model.metabolites[0].id)'',
       ''except KeyError as e:'',
       ''    print(repr(e))''],
     outputs = [Stream ''stdout'' [''KeyError('test_dcaACP_c',)'']]\<rparr>\<close>

definition faq_cell_2 :: code_cell where
  \<open>faq_cell_2 = \<lparr>execution_count = 2,
     source = [''model.repair()'',
       ''model.metabolites.get_by_id(model.metabolites[0].id)''],
     outputs = [Execute_result [(''text/plain'', [''<Metabolite test_dcaACP_c at 0x688b450>''])]]\<rparr>\<close>

definition faq_cell_3 :: code_cell where
  \<open>faq_cell_3 = \<lparr>execution_count = 3,
     source = [''model = cobra.test.create_test_model()'',
       ''PGI = model.reactions.get_by_id("PGI")'',
       ''print("bounds before knockout:", (PGI.lower_bound, PGI.upper_bound))'',
       ''cobra.manipulation.delete_model_genes(model, ["STM4221"])'',
       ''print("bounds after knockouts", (PGI.lower_bound, PGI.upper_bound))''],
     outputs = [Stream ''stdout'' [''bounds before knockout: (-1000.0, 1000.0)'',
          ''bounds after knockouts (0.0, 0.0)'']]\<rparr>\<close>

definition faq_cell_4 :: code_cell where
  \<open>faq_cell_4 = \<lparr>execution_count = 4,
     source = [''model = cobra.test.create_test_model()'',
       ''model.reactions.get_by_id("PGI").reversibility''],
     outputs = [Execute_result [(''text/plain'', [''True''])]]\<rparr>\<close>

definition faq_cell_5 :: code_cell where
  \<open>faq_cell_5 = \<lparr>execution_count = 5,
     source = [''try:'',
       ''    model.reactions.get_by_id("PGI").reversibility = False'',
       ''except Exception as e:'',
       ''    print(repr(e))''],
     outputs = [Stream ''stdout'' [''AttributeError("can't set attribute",)'']]\<rparr>\<close>

definition faq_cell_6 :: code_cell where
  \<open>faq_cell_6 = \<lparr>execution_count = 6,
     source = [''model.reactions.get_by_id("PGI").lower_bound = 10'',
       ''model.reactions.get_by_id("PGI").reversibility''],
     outputs = [Execute_result [(''text/plain'', [''False''])]]\<rparr>\<close>

definition faq_cell_7 :: code_cell where
  \<open>faq_cell_7 = \<lparr>execution_count = 7,
     source = [''model = cobra.test.create_test_model()'',
       ''# glpk through cglpk'',
       ''glp = cobra.solvers.cglpk.create_problem(model)'',
       ''glp.write("test.lp")'',
       ''glp.write("test.mps")  # will not rewrite objective'',
       ''# gurobi'',
       ''gurobi_problem = cobra.solvers.gurobi_solver.create_problem(model)'',
       ''gurobi_problem.write("test.lp")'',
       ''gurobi_problem.write("test.mps")  # rewrites objective'',
       ''# cplex'',
       ''cplex_problem = cobra.solvers.cplex_solver.create_problem(model)'',
       ''cplex_problem.write("test.lp")'',
       ''cplex_problem.write("test.mps")  # rewrites objective''],
     outputs = []\<rparr>\<close>

definition faq :: "code_cell list" where
  "faq = [faq_cell_1, faq_cell_2, faq_cell_3, faq_cell_4, faq_cell_5, faq_cell_6, faq_cell_7]"


subsection \<open>The markdown cells of the three documents\<close>





definition notebooks :: "code_cell list" where
  "notebooks = milp @ loopless @ faq"

subsection \<open>What a cell does and what its output shows\<close>

text \<open>A cell derives its output from the solver when its source calls \<^verbatim>\<open>.optimize(\<close>.\<close>

definition calls_optimize :: "code_cell \<Rightarrow> bool" where
  "calls_optimize c = list_ex (\<lambda>line. contains line ''.optimize('') (source c)"

fun output_lines :: "cell_output \<Rightarrow> string list" where
  "output_lines (Stream name text) = text"
| "output_lines (Execute_result data) = concat (map snd data)"
| "output_lines (Display_data data) = concat (map snd data)"
| "output_lines (Error ename evalue traceback) = (ename @ '': '' @ evalue) # traceback"




text \<open>
  The results of an optimization as the notebooks show them: the \<^verbatim>\<open>x_dict\<close> of flux values
  (a dictionary), the \<^verbatim>\<open>repr\<close> of a \<^verbatim>\<open>Solution\<close> (its objective value or \<^verbatim>\<open>'infeasible'\<close>), and
  the printed indicator and flux lines. The first line of an output decides.
\<close>

definition shows_solver_result :: "cell_output \<Rightarrow> bool" where
  \<open>shows_solver_result out \<longleftrightarrow>
     (case output_lines out of
        [] \<Rightarrow> False
      | line # _ \<Rightarrow> startswith line (''{'' @ [CHR 0x27]) \<or> startswith line ''<Solution ''
          \<or> contains line '' indicator = '' \<or> contains line '' flux = '')\<close>

definition has_output :: "code_cell \<Rightarrow> bool" where
  "has_output c \<longleftrightarrow> outputs c \<noteq> []"

definition shows_result :: "code_cell \<Rightarrow> bool" where
  "shows_result c = list_ex shows_solver_result (outputs c)"

definition shows_other :: "code_cell \<Rightarrow> bool" where
  "shows_other c = list_ex (\<lambda>out. \<not> shows_solver_result out) (outputs c)"













section \<open>Properties of the ice cream program\<close>

lemma ice_cream_feasible_iff:
  "ice_cream_feasible c p \<longleftrightarrow> 0 \<le> c \<and> 0 \<le> p \<and> 3 * c + p \<le> 100"
  by (simp add: ice_cream_feasible_def holds_def budget_def budget_row_def
      cone_production_cost_def popsicle_production_cost_def starting_budget_def mult.commute)

lemma profit_eq: "profit c p = 4 * c + p"
  by (simp add: mult.commute profit_def cone_objective_coefficient_def popsicle_objective_coefficient_def
      cone_selling_price_def cone_production_cost_def popsicle_selling_price_def
      popsicle_production_cost_def)

lemma budget_row_eq: "budget_row c p = 3 * c + p"
  by (simp add: mult.commute budget_row_def cone_production_cost_def popsicle_production_cost_def)

lemma lp_bound:
  assumes "ice_cream_feasible c p"
  shows "profit c p \<le> 400 / 3"
  using assms unfolding ice_cream_feasible_iff profit_eq by linarith

lemma lp_optimum_unique:
  assumes "ice_cream_feasible c p" and "profit c p = 400 / 3"
  shows "c = 100 / 3 \<and> p = 0"
  using assms unfolding ice_cream_feasible_iff profit_eq by linarith

lemma milp_bound:
  fixes c p :: int
  assumes "ice_cream_feasible (of_int c) (of_int p)"
  shows "profit (of_int c) (of_int p) \<le> 133"
proof -
  from assms have "0 \<le> c" "0 \<le> p" and "3 * real_of_int c + real_of_int p \<le> 100"
    unfolding ice_cream_feasible_iff by simp_all
  then have "3 * c + p \<le> 100"
    by linarith
  with \<open>0 \<le> p\<close> have "4 * c + p \<le> 133"
    by linarith
  then have "real_of_int (4 * c + p) \<le> 133"
    by linarith
  then show ?thesis
    unfolding profit_eq by simp
qed

text \<open>
  The default upper bound of a variable plays no part: a feasible plan has at most 34 cones
  and 100 popsicles.
\<close>

lemma ice_cream_feasible_bounded:
  assumes "ice_cream_feasible c p"
  shows "c \<le> 100 / 3 \<and> p \<le> 100"
  using assms unfolding ice_cream_feasible_iff by linarith

text \<open>
  C9. For the ice cream program (maximise \<open>4 cone + popsicle\<close> subject to
  \<open>3 cone + popsicle \<le> 100\<close> with both amounts nonnegative): the continuous optimum is
  \<open>cone = 100/3\<close>, \<open>popsicle = 0\<close>, it is the only one, and the recorded output agrees with it
  up to the rounding of the printed value; the recorded integer plan \<open>cone = 33\<close>,
  \<open>popsicle = 1\<close> is feasible, costs exactly 100 and earns 133, no feasible integer plan
  earns more, and 133 is strictly below the continuous optimum \<open>400/3\<close>.
\<close>

theorem ice_cream_optimum:
  "ice_cream_feasible (100 / 3) 0
   \<and> profit (100 / 3) 0 = 400 / 3
   \<and> (\<forall>c p. ice_cream_feasible c p \<longrightarrow> profit c p \<le> profit (100 / 3) 0)
   \<and> (\<forall>c p. ice_cream_feasible c p \<and> profit c p = profit (100 / 3) 0 \<longrightarrow> c = 100 / 3 \<and> p = 0)
   \<and> \<bar>lp_recorded_cone - 100 / 3\<bar> < 1 / 10 ^ 14 \<and> lp_recorded_popsicle = 0
   \<and> ice_cream_feasible (of_int milp_recorded_cone) (of_int milp_recorded_popsicle)
   \<and> budget_row (of_int milp_recorded_cone) (of_int milp_recorded_popsicle) = 100
   \<and> profit (of_int milp_recorded_cone) (of_int milp_recorded_popsicle) = 133
   \<and> (\<forall>c p :: int. ice_cream_feasible (of_int c) (of_int p) \<longrightarrow>
         profit (of_int c) (of_int p)
           \<le> profit (of_int milp_recorded_cone) (of_int milp_recorded_popsicle))
   \<and> profit (of_int milp_recorded_cone) (of_int milp_recorded_popsicle) < profit (100 / 3) 0"
proof -
  have opt: "profit (100 / 3) 0 = 400 / 3"
    by (simp add: profit_eq)
  have rec: "profit (of_int milp_recorded_cone) (of_int milp_recorded_popsicle) = 133"
    by (simp add: profit_eq milp_recorded_cone_def milp_recorded_popsicle_def)
  have "ice_cream_feasible (100 / 3) 0"
    by (simp add: ice_cream_feasible_iff)
  moreover have "\<forall>c p. ice_cream_feasible c p \<longrightarrow> profit c p \<le> profit (100 / 3) 0"
    using lp_bound unfolding opt by blast
  moreover have "\<forall>c p. ice_cream_feasible c p \<and> profit c p = profit (100 / 3) 0
      \<longrightarrow> c = 100 / 3 \<and> p = 0"
    using lp_optimum_unique unfolding opt by blast
  moreover have "\<bar>lp_recorded_cone - 100 / 3\<bar> < 1 / 10 ^ 14"
    by (simp add: lp_recorded_cone_def)
  moreover have "lp_recorded_popsicle = 0"
    by (simp add: lp_recorded_popsicle_def)
  moreover have "ice_cream_feasible (of_int milp_recorded_cone) (of_int milp_recorded_popsicle)"
    by (simp add: ice_cream_feasible_iff milp_recorded_cone_def milp_recorded_popsicle_def)
  moreover have "budget_row (of_int milp_recorded_cone) (of_int milp_recorded_popsicle) = 100"
    by (simp add: budget_row_eq milp_recorded_cone_def milp_recorded_popsicle_def)
  moreover have "\<forall>c p :: int. ice_cream_feasible (of_int c) (of_int p) \<longrightarrow>
      profit (of_int c) (of_int p)
        \<le> profit (of_int milp_recorded_cone) (of_int milp_recorded_popsicle)"
    using milp_bound unfolding rec by blast
  moreover have "profit (of_int milp_recorded_cone) (of_int milp_recorded_popsicle)
      < profit (100 / 3) 0"
    by (simp add: rec opt)
  ultimately show ?thesis
    using opt rec by blast
qed

text \<open>
  The theorem at concrete plans: 10 cones and 20 popsicles are within the budget and earn
  60, below both optima; 32 cones and 4 popsicles are an integer plan at the budget that
  earns 132.
\<close>

theorem ice_cream_optimum_witness:
  "ice_cream_feasible 10 20 \<and> profit 10 20 = 60 \<and> profit 10 20 \<le> profit (100 / 3) 0
   \<and> ice_cream_feasible (of_int 32) (of_int 4)
   \<and> profit (of_int 32) (of_int 4)
        \<le> profit (of_int milp_recorded_cone) (of_int milp_recorded_popsicle)"
proof -
  have f1: "ice_cream_feasible 10 20"
    by (simp add: ice_cream_feasible_iff)
  have f2: "ice_cream_feasible (of_int 32) (of_int 4)"
    by (simp add: ice_cream_feasible_iff)
  have "profit 10 20 = 60"
    by (simp add: profit_eq)
  with f1 f2 ice_cream_optimum show ?thesis
    by blast
qed


section \<open>Properties of the restaurant order\<close>

lemma orders_sound:
  "vs \<in> set (orders cs t) \<Longrightarrow> length vs = length cs \<and> dot cs vs = t"
proof (induction cs arbitrary: t vs)
  case Nil
  then show ?case
    by (auto split: if_splits)
next
  case (Cons c cs)
  then obtain k ws
    where k: "k < Suc (t div c)" and ws: "ws \<in> set (orders cs (t - k * c))" and vs: "vs = k # ws"
    by auto
  from Cons.IH [OF ws] have "length ws = length cs" "dot cs ws = t - k * c"
    by auto
  moreover have "k * c \<le> t"
    using k by (metis less_Suc_eq_le div_times_less_eq_dividend mult_le_mono1 order_trans)
  ultimately show ?case
    using vs by (simp add: mult.commute)
qed

lemma orders_complete:
  assumes "\<forall>c \<in> set cs. 0 < c" and "length vs = length cs" and "dot cs vs = t"
  shows "vs \<in> set (orders cs t)"
  using assms
proof (induction cs arbitrary: t vs)
  case Nil
  then show ?case
    by simp
next
  case (Cons c cs)
  from Cons.prems(2) obtain k ws where vs: "vs = k # ws"
    by (cases vs) simp_all
  with Cons.prems have t: "t = c * k + dot cs ws" and len: "length ws = length cs" and c: "0 < c"
    by auto
  have "ws \<in> set (orders cs (t - k * c))"
    using Cons.IH [of ws "dot cs ws"] Cons.prems(1) len t by (simp add: mult.commute)
  moreover have "k \<le> t div c"
    using t c by (metis div_le_mono le_add1 nonzero_mult_div_cancel_left less_numeral_extra(3))
  then have "k \<in> set [0..<Suc (t div c)]"
    by (simp del: upt_Suc)
  ultimately have
    "k # ws \<in> (\<Union>j\<in>set [0..<Suc (t div c)]. set (map ((#) j) (orders cs (t - j * c))))"
    by (intro UN_I [of k]) (simp_all del: upt_Suc set_upt)
  then show ?case
    unfolding vs by (simp del: upt_Suc set_upt)
qed

lemma orders_cents: "orders cents 1505 = [[1, 0, 0, 2, 0, 1], [7, 0, 0, 0, 0, 0]]"
  unfolding cents_def by (simp add: upt_rec del: upt_Suc)

lemma order_feasible_iff:
  "order_feasible v \<longleftrightarrow>
     0 \<le> v ''mixed_fruit'' \<and> 0 \<le> v ''french_fries'' \<and> 0 \<le> v ''side_salad''
     \<and> 0 \<le> v ''hot_wings'' \<and> 0 \<le> v ''mozarella_sticks'' \<and> 0 \<le> v ''sampler_plate''
     \<and> 215 * v ''mixed_fruit'' + 275 * v ''french_fries'' + 335 * v ''side_salad''
        + 355 * v ''hot_wings'' + 420 * v ''mozarella_sticks'' + 580 * v ''sampler_plate'' = 1505"
proof -
  define k where "k = 215 * v ''mixed_fruit'' + 275 * v ''french_fries'' + 335 * v ''side_salad''
        + 355 * v ''hot_wings'' + 420 * v ''mozarella_sticks'' + 580 * v ''sampler_plate''"
  have "constraint_row v = of_int k / 100"
    by (simp add: constraint_row_def costs_def k_def)
  moreover have "holds total_cost (of_int k / 100) \<longleftrightarrow> k = 1505"
    by (simp add: holds_def total_cost_def)
  ultimately have "holds total_cost (constraint_row v) \<longleftrightarrow> k = 1505"
    by (simp only:)
  then show ?thesis
    by (simp add: order_feasible_def costs_def k_def)
qed

lemma same_order_iff:
  "same_order v w \<longleftrightarrow>
     v ''mixed_fruit'' = w ''mixed_fruit'' \<and> v ''french_fries'' = w ''french_fries''
     \<and> v ''side_salad'' = w ''side_salad'' \<and> v ''hot_wings'' = w ''hot_wings''
     \<and> v ''mozarella_sticks'' = w ''mozarella_sticks'' \<and> v ''sampler_plate'' = w ''sampler_plate''"
  by (simp add: same_order_def costs_def)

lemma recorded_minimize_values:
  "x_dict recorded_minimize ''mixed_fruit'' = 1" "x_dict recorded_minimize ''french_fries'' = 0"
  "x_dict recorded_minimize ''side_salad'' = 0" "x_dict recorded_minimize ''hot_wings'' = 2"
  "x_dict recorded_minimize ''mozarella_sticks'' = 0" "x_dict recorded_minimize ''sampler_plate'' = 1"
  by (simp_all add: x_dict_def recorded_minimize_def)

lemma recorded_maximize_values:
  "x_dict recorded_maximize ''mixed_fruit'' = 7" "x_dict recorded_maximize ''french_fries'' = 0"
  "x_dict recorded_maximize ''side_salad'' = 0" "x_dict recorded_maximize ''hot_wings'' = 0"
  "x_dict recorded_maximize ''mozarella_sticks'' = 0" "x_dict recorded_maximize ''sampler_plate'' = 0"
  by (simp_all add: x_dict_def recorded_maximize_def)

lemma order_feasible_only:
  assumes "order_feasible v"
  shows "same_order v (x_dict recorded_minimize) \<or> same_order v (x_dict recorded_maximize)"
proof -
  define vs where "vs = map (\<lambda>item. nat (v item)) (map fst costs)"
  have vs: "vs = [nat (v ''mixed_fruit''), nat (v ''french_fries''), nat (v ''side_salad''),
      nat (v ''hot_wings''), nat (v ''mozarella_sticks''), nat (v ''sampler_plate'')]"
    by (simp add: vs_def costs_def)
  from assms have nn: "0 \<le> v ''mixed_fruit''" "0 \<le> v ''french_fries''" "0 \<le> v ''side_salad''"
      "0 \<le> v ''hot_wings''" "0 \<le> v ''mozarella_sticks''" "0 \<le> v ''sampler_plate''"
    and eq: "215 * v ''mixed_fruit'' + 275 * v ''french_fries'' + 335 * v ''side_salad''
        + 355 * v ''hot_wings'' + 420 * v ''mozarella_sticks'' + 580 * v ''sampler_plate'' = 1505"
    unfolding order_feasible_iff by simp_all
  have "int (dot cents vs) = 1505"
    using nn eq by (simp add: cents_def vs)
  then have "dot cents vs = 1505"
    by linarith
  moreover have "length vs = length cents" "\<forall>c \<in> set cents. 0 < c"
    by (simp_all add: vs cents_def)
  ultimately have "vs \<in> set (orders cents 1505)"
    using orders_complete by blast
  then have "vs = [1, 0, 0, 2, 0, 1] \<or> vs = [7, 0, 0, 0, 0, 0]"
    unfolding orders_cents by simp
  moreover have int_back: "z = int n" if "0 \<le> z" and "nat z = n" for z n
    using that by simp
  ultimately show ?thesis
  proof (elim disjE)
    assume "vs = [1, 0, 0, 2, 0, 1]"
    then have n: "nat (v ''mixed_fruit'') = 1" "nat (v ''french_fries'') = 0"
      "nat (v ''side_salad'') = 0" "nat (v ''hot_wings'') = 2"
      "nat (v ''mozarella_sticks'') = 0" "nat (v ''sampler_plate'') = 1"
      unfolding vs by simp_all
    show ?thesis
      unfolding same_order_iff recorded_minimize_values
      using int_back [OF nn(1) n(1)] int_back [OF nn(2) n(2)] int_back [OF nn(3) n(3)]
        int_back [OF nn(4) n(4)] int_back [OF nn(5) n(5)] int_back [OF nn(6) n(6)]
      by simp
  next
    assume "vs = [7, 0, 0, 0, 0, 0]"
    then have n: "nat (v ''mixed_fruit'') = 7" "nat (v ''french_fries'') = 0"
      "nat (v ''side_salad'') = 0" "nat (v ''hot_wings'') = 0"
      "nat (v ''mozarella_sticks'') = 0" "nat (v ''sampler_plate'') = 0"
      unfolding vs by simp_all
    show ?thesis
      unfolding same_order_iff recorded_maximize_values
      using int_back [OF nn(1) n(1)] int_back [OF nn(2) n(2)] int_back [OF nn(3) n(3)]
        int_back [OF nn(4) n(4)] int_back [OF nn(5) n(5)] int_back [OF nn(6) n(6)]
      by simp
  qed
qed

text \<open>
  C8. Both recorded orders, \<open>{hot_wings: 2, mixed_fruit: 1, sampler_plate: 1}\<close> and
  \<open>{mixed_fruit: 7}\<close> with every other amount 0, have nonnegative integer amounts and cost
  exactly 15.05 in exact arithmetic, and they are the only two orders of nonnegative
  integer amounts that do.
\<close>

theorem restaurant_orders_exactly_two:
  "order_feasible (x_dict recorded_minimize)
   \<and> order_feasible (x_dict recorded_maximize)
   \<and> constraint_row (x_dict recorded_minimize) = 1505 / 100
   \<and> constraint_row (x_dict recorded_maximize) = 1505 / 100
   \<and> map (x_dict recorded_minimize) (map fst costs) = [1, 0, 0, 2, 0, 1]
   \<and> map (x_dict recorded_maximize) (map fst costs) = [7, 0, 0, 0, 0, 0]
   \<and> \<not> same_order (x_dict recorded_minimize) (x_dict recorded_maximize)
   \<and> (\<forall>v. order_feasible v \<longrightarrow>
         same_order v (x_dict recorded_minimize) \<or> same_order v (x_dict recorded_maximize))"
proof -
  have "order_feasible (x_dict recorded_minimize)"
    unfolding order_feasible_iff recorded_minimize_values by simp
  moreover have "order_feasible (x_dict recorded_maximize)"
    unfolding order_feasible_iff recorded_maximize_values by simp
  moreover have "constraint_row (x_dict recorded_minimize) = 1505 / 100"
    by (simp add: constraint_row_def costs_def recorded_minimize_values)
  moreover have "constraint_row (x_dict recorded_maximize) = 1505 / 100"
    by (simp add: constraint_row_def costs_def recorded_maximize_values)
  moreover have "map (x_dict recorded_minimize) (map fst costs) = [1, 0, 0, 2, 0, 1]"
    by (simp add: costs_def recorded_minimize_values)
  moreover have "map (x_dict recorded_maximize) (map fst costs) = [7, 0, 0, 0, 0, 0]"
    by (simp add: costs_def recorded_maximize_values)
  moreover have "\<not> same_order (x_dict recorded_minimize) (x_dict recorded_maximize)"
    unfolding same_order_iff recorded_minimize_values recorded_maximize_values by simp
  ultimately show ?thesis
    using order_feasible_only by blast
qed

text \<open>
  The theorem at an order written out by hand: seven mixed fruit and nothing else is
  feasible, so it is one of the two recorded orders, and it is the second.
\<close>

theorem restaurant_orders_exactly_two_witness:
  "order_feasible (\<lambda>item. if item = ''mixed_fruit'' then 7 else 0)
   \<and> same_order (\<lambda>item. if item = ''mixed_fruit'' then 7 else 0) (x_dict recorded_maximize)"
proof -
  let ?v = "\<lambda>item. if item = ''mixed_fruit'' then 7 else (0::int)"
  have f: "order_feasible ?v"
    unfolding order_feasible_iff by simp
  have "\<not> same_order ?v (x_dict recorded_minimize)"
    unfolding same_order_iff recorded_minimize_values by simp
  with f restaurant_orders_exactly_two show ?thesis
    by blast
qed


section \<open>Properties of the indicator rows\<close>

lemma holds_plus_iff: "holds pgi_plus (plus_row v b) \<longleftrightarrow> v - 1000 * b \<le> 0"
  by (simp add: holds_def pgi_plus_def plus_row_def)

lemma holds_minus_iff: "holds pgi_minus (minus_row v b) \<longleftrightarrow> 0 \<le> v + 1000 * b"
  by (simp add: holds_def pgi_minus_def minus_row_def)

lemma holds_zwf_plus_iff: "holds zwf_plus (plus_row v b) \<longleftrightarrow> v - 1000 * b \<le> 0"
  by (simp add: holds_def zwf_plus_def plus_row_def)

lemma holds_zwf_minus_iff: "holds zwf_minus (minus_row v b) \<longleftrightarrow> 0 \<le> v + 1000 * b"
  by (simp add: holds_def zwf_minus_def minus_row_def)

text \<open>
  C10. The rewriting of the indicator constraint is an equivalence: for every real flux
  \<open>v\<close> and every \<open>b\<close> in \<open>{0, 1}\<close>, \<open>-1000 b \<le> v \<le> 1000 b\<close> holds if and only if
  \<open>v - 1000 b \<le> 0\<close> and \<open>v + 1000 b \<ge> 0\<close> hold, and these are the two rows the code cell
  builds for PGI and again for ZWF.
\<close>

theorem indicator_rewriting_equivalent:
  assumes "b \<in> {0, 1}"
  shows "(indicator_bounds v b \<longleftrightarrow> v - 1000 * b \<le> 0 \<and> v + 1000 * b \<ge> 0)
    \<and> (indicator_bounds v b \<longleftrightarrow> holds pgi_plus (plus_row v b) \<and> holds pgi_minus (minus_row v b))
    \<and> (indicator_bounds v b \<longleftrightarrow> holds zwf_plus (plus_row v b) \<and> holds zwf_minus (minus_row v b))"
  unfolding holds_plus_iff holds_minus_iff holds_zwf_plus_iff holds_zwf_minus_iff
    indicator_bounds_def
  by auto

text \<open>
  With the indicator off the flux is forced to zero: the flux 5 violates both forms, the
  flux 0 satisfies both. With the indicator on, the recorded PGI flux 4.86 satisfies both.
\<close>

theorem indicator_rewriting_equivalent_witness:
  "(0::real) \<in> {0, 1} \<and> (1::real) \<in> {0, 1}
   \<and> \<not> indicator_bounds 5 0 \<and> \<not> (holds pgi_plus (plus_row 5 0) \<and> holds pgi_minus (minus_row 5 0))
   \<and> indicator_bounds 0 0 \<and> holds pgi_plus (plus_row 0 0) \<and> holds pgi_minus (minus_row 0 0)
   \<and> indicator_bounds (486 / 100) 1
   \<and> holds pgi_plus (plus_row (486 / 100) 1) \<and> holds pgi_minus (minus_row (486 / 100) 1)"
proof -
  have b0: "(0::real) \<in> {0, 1}" and b1: "(1::real) \<in> {0, 1}"
    by simp_all
  have "\<not> indicator_bounds 5 0" "indicator_bounds 0 0" "indicator_bounds (486 / 100) 1"
    by (simp_all add: indicator_bounds_def)
  then show ?thesis
    using indicator_rewriting_equivalent [OF b0, of 5]
      indicator_rewriting_equivalent [OF b0, of 0]
      indicator_rewriting_equivalent [OF b1, of "486 / 100"] b0 b1
    by blast
qed


section \<open>Properties of the CI configuration\<close>

text \<open>
  C2. The CI configuration specifies all six parts: the interpreter matrix (Python 2.7, 3.4
  and 3.5); system packages that include the linear algebra and MILP libraries
  (\<^verbatim>\<open>libatlas-dev\<close>, \<^verbatim>\<open>libatlas-base-dev\<close>, \<^verbatim>\<open>liblapack-dev\<close>, \<^verbatim>\<open>libglpk-dev\<close>, \<^verbatim>\<open>libgmp-dev\<close>); a
  sequence of dependency installs (four \<^verbatim>\<open>pip install\<close> commands, then
  \<^verbatim>\<open>python setup.py develop\<close>); a step that fetches the \<^verbatim>\<open>esolver\<close> binary with \<^verbatim>\<open>wget\<close>, makes
  it executable and appends its directory to \<^verbatim>\<open>PATH\<close>; the test invocation; and the coverage
  report by \<^verbatim>\<open>coveralls\<close>.
\<close>

theorem travis_specifies:
  "python travis_yml = [''2.7'', ''3.4'', ''3.5'']
   \<and> ''libatlas-dev'' \<in> set (apt_packages travis_yml)
   \<and> ''libatlas-base-dev'' \<in> set (apt_packages travis_yml)
   \<and> ''liblapack-dev'' \<in> set (apt_packages travis_yml)
   \<and> ''libglpk-dev'' \<in> set (apt_packages travis_yml)
   \<and> ''libgmp-dev'' \<in> set (apt_packages travis_yml)
   \<and> filter (\<lambda>c. contains c ''pip install'') (before_install travis_yml)
       = [''pip install pip --upgrade'',
          ''pip install numpy scipy python-libsbml -v'',
          ''pip install cython coveralls jsonschema six'',
          ''if [[ $TRAVIS_PYTHON_VERSION == 2* ]]; then pip install lxml glpk; fi'']
   \<and> install travis_yml = [''python setup.py develop'']
   \<and> filter (\<lambda>c. contains c ''esolver'') (before_install travis_yml)
       = [''wget https://opencobra.github.io/pypi_cobrapy_travis/esolver.gz'',
          ''gzip -d esolver.gz; chmod +x esolver; export PATH=$PATH:$PWD'']
   \<and> list_ex (\<lambda>c. startswith c ''wget '' \<and> contains c ''esolver'') (before_install travis_yml)
   \<and> list_ex (\<lambda>c. contains c ''chmod +x esolver'' \<and> contains c ''export PATH=$PATH:$PWD'')
        (before_install travis_yml)
   \<and> script travis_yml = [''coverage run --source=cobra setup.py test'']
   \<and> after_success travis_yml = [''coveralls'']"
  by (simp add: travis_yml_def)


section \<open>Properties of the captured output\<close>

lemmas milp_cells = milp_cell_1_def milp_cell_2_def milp_cell_3_def milp_cell_4_def
  milp_cell_5_def milp_cell_6_def milp_cell_7_def milp_cell_8_def milp_cell_9_def

lemmas loopless_cells = loopless_cell_1_def loopless_cell_2_def loopless_cell_3_def
  loopless_cell_4_def loopless_cell_5_def loopless_cell_6_def loopless_cell_7_def

lemmas faq_cells = faq_cell_1_def faq_cell_2_def faq_cell_3_def faq_cell_4_def
  faq_cell_5_def faq_cell_6_def faq_cell_7_def

lemma calls_optimize_milp:
  "\<not> calls_optimize milp_cell_1" "calls_optimize milp_cell_2" "calls_optimize milp_cell_3"
  "\<not> calls_optimize milp_cell_4" "calls_optimize milp_cell_5" "calls_optimize milp_cell_6"
  "\<not> calls_optimize milp_cell_7" "calls_optimize milp_cell_8" "calls_optimize milp_cell_9"
  by (simp_all add: calls_optimize_def milp_cells)

lemma calls_optimize_loopless:
  "\<not> calls_optimize loopless_cell_1" "\<not> calls_optimize loopless_cell_2"
  "\<not> calls_optimize loopless_cell_3" "calls_optimize loopless_cell_4"
  "calls_optimize loopless_cell_5" "calls_optimize loopless_cell_6"
  "calls_optimize loopless_cell_7"
  by (simp_all add: calls_optimize_def loopless_cells)

lemma calls_optimize_faq:
  "\<not> calls_optimize faq_cell_1" "\<not> calls_optimize faq_cell_2" "\<not> calls_optimize faq_cell_3"
  "\<not> calls_optimize faq_cell_4" "\<not> calls_optimize faq_cell_5" "\<not> calls_optimize faq_cell_6"
  "\<not> calls_optimize faq_cell_7"
  by (simp_all add: calls_optimize_def faq_cells)





lemma has_output_milp:
  "\<not> has_output milp_cell_1" "has_output milp_cell_2" "has_output milp_cell_3"
  "has_output milp_cell_4" "has_output milp_cell_5" "has_output milp_cell_6"
  "\<not> has_output milp_cell_7" "has_output milp_cell_8" "has_output milp_cell_9"
  by (simp_all add: has_output_def milp_cells)

lemma has_output_loopless:
  "\<not> has_output loopless_cell_1" "has_output loopless_cell_2"
  "\<not> has_output loopless_cell_3" "has_output loopless_cell_4"
  "has_output loopless_cell_5" "has_output loopless_cell_6" "has_output loopless_cell_7"
  by (simp_all add: has_output_def loopless_cells)

lemma has_output_faq:
  "has_output faq_cell_1" "has_output faq_cell_2" "has_output faq_cell_3"
  "has_output faq_cell_4" "has_output faq_cell_5" "has_output faq_cell_6"
  "\<not> has_output faq_cell_7"
  by (simp_all add: has_output_def faq_cells)

lemma shows_result_milp:
  "\<not> shows_result milp_cell_1" "shows_result milp_cell_2" "shows_result milp_cell_3"
  "\<not> shows_result milp_cell_4" "shows_result milp_cell_5" "shows_result milp_cell_6"
  "\<not> shows_result milp_cell_7" "shows_result milp_cell_8" "shows_result milp_cell_9"
  by (simp_all add: shows_result_def shows_solver_result_def milp_cells)

lemma shows_result_loopless:
  "\<not> shows_result loopless_cell_1" "\<not> shows_result loopless_cell_2"
  "\<not> shows_result loopless_cell_3" "shows_result loopless_cell_4"
  "shows_result loopless_cell_5" "shows_result loopless_cell_6" "shows_result loopless_cell_7"
  by (simp_all add: shows_result_def shows_solver_result_def loopless_cells)

lemma shows_result_faq:
  "\<not> shows_result faq_cell_1" "\<not> shows_result faq_cell_2" "\<not> shows_result faq_cell_3"
  "\<not> shows_result faq_cell_4" "\<not> shows_result faq_cell_5" "\<not> shows_result faq_cell_6"
  "\<not> shows_result faq_cell_7"
  by (simp_all add: shows_result_def shows_solver_result_def faq_cells)

lemma shows_other_milp:
  "\<not> shows_other milp_cell_1" "\<not> shows_other milp_cell_2" "\<not> shows_other milp_cell_3"
  "shows_other milp_cell_4" "\<not> shows_other milp_cell_5" "\<not> shows_other milp_cell_6"
  "\<not> shows_other milp_cell_7" "\<not> shows_other milp_cell_8" "\<not> shows_other milp_cell_9"
  by (simp_all add: shows_other_def shows_solver_result_def milp_cells)

lemma shows_other_loopless:
  "\<not> shows_other loopless_cell_1" "shows_other loopless_cell_2"
  "\<not> shows_other loopless_cell_3" "\<not> shows_other loopless_cell_4"
  "\<not> shows_other loopless_cell_5" "\<not> shows_other loopless_cell_6"
  "\<not> shows_other loopless_cell_7"
  by (simp_all add: shows_other_def shows_solver_result_def loopless_cells)



text \<open>
  C7, as stated, fails: the FAQ cell that reads \<^verbatim>\<open>reversibility\<close> has the captured result
  \<^verbatim>\<open>True\<close>, its source does not call \<^verbatim>\<open>optimize\<close>, and no cell of the FAQ does.
\<close>

theorem reversibility_output_not_from_optimize:
  \<open>faq_cell_4 \<in> set notebooks
   \<and> source faq_cell_4 = [''model = cobra.test.create_test_model()'',
        ''model.reactions.get_by_id("PGI").reversibility'']
   \<and> outputs faq_cell_4 = [Execute_result [(''text/plain'', [''True''])]]
   \<and> \<not> calls_optimize faq_cell_4
   \<and> filter calls_optimize faq = []\<close>
proof -
  have "faq_cell_4 \<in> set notebooks"
    by (simp add: notebooks_def faq_def)
  moreover have "filter calls_optimize faq = []"
    by (simp add: faq_def calls_optimize_faq)
  moreover have \<open>source faq_cell_4 = [''model = cobra.test.create_test_model()'',
        ''model.reactions.get_by_id("PGI").reversibility'']\<close>
    \<open>outputs faq_cell_4 = [Execute_result [(''text/plain'', [''True''])]]\<close>
    by (simp_all add: faq_cell_4_def)
  ultimately show ?thesis
    using calls_optimize_faq(4) by blast
qed

text \<open>
  C7, amended. Every captured result of an optimization (the dictionaries of flux values,
  the printed indicator and flux values, and the \<^verbatim>\<open>Solution\<close> results, the infeasible one
  among them) is in the output of a cell that calls \<^verbatim>\<open>optimize\<close>, and those cells show
  nothing else. The other captured outputs (the two images, the two exception examples,
  the \<^verbatim>\<open>Metabolite\<close>, the bounds around the knockout and the two reversibility flags) belong
  to cells that do not call \<^verbatim>\<open>optimize\<close>.
\<close>

theorem solver_results_derive_from_optimize:
  \<open>filter (\<lambda>c. shows_result c \<and> \<not> calls_optimize c) notebooks = []
   \<and> filter shows_result notebooks
       = [milp_cell_2, milp_cell_3, milp_cell_5, milp_cell_6, milp_cell_8, milp_cell_9,
          loopless_cell_4, loopless_cell_5, loopless_cell_6, loopless_cell_7]
   \<and> filter (\<lambda>c. calls_optimize c \<and> shows_other c) notebooks = []
   \<and> filter (\<lambda>c. has_output c \<and> \<not> calls_optimize c) notebooks
       = [milp_cell_4, loopless_cell_2,
          faq_cell_1, faq_cell_2, faq_cell_3, faq_cell_4, faq_cell_5, faq_cell_6]
   \<and> outputs loopless_cell_5
       = [Execute_result [(''text/plain'', [''<Solution 'infeasible' at 0x7f003ad82f10>''])]]\<close>
proof -
  note cells = notebooks_def milp_def loopless_def faq_def
  note facts = calls_optimize_milp calls_optimize_loopless calls_optimize_faq
    shows_result_milp shows_result_loopless shows_result_faq
    shows_other_milp shows_other_loopless
    has_output_milp has_output_loopless has_output_faq
  have "filter (\<lambda>c. shows_result c \<and> \<not> calls_optimize c) notebooks = []"
    by (simp add: cells facts)
  moreover have "filter shows_result notebooks
       = [milp_cell_2, milp_cell_3, milp_cell_5, milp_cell_6, milp_cell_8, milp_cell_9,
          loopless_cell_4, loopless_cell_5, loopless_cell_6, loopless_cell_7]"
    by (simp add: cells facts)
  moreover have "filter (\<lambda>c. calls_optimize c \<and> shows_other c) notebooks = []"
    by (simp add: cells facts)
  moreover have "filter (\<lambda>c. has_output c \<and> \<not> calls_optimize c) notebooks
       = [milp_cell_4, loopless_cell_2,
          faq_cell_1, faq_cell_2, faq_cell_3, faq_cell_4, faq_cell_5, faq_cell_6]"
    by (simp add: cells facts)
  moreover have \<open>outputs loopless_cell_5
       = [Execute_result [(''text/plain'', [''<Solution 'infeasible' at 0x7f003ad82f10>''])]]\<close>
    by (simp add: loopless_cell_5_def)
  ultimately show ?thesis
    by blast
qed










end
